theory Spec2Isabelle
  imports Main "HOL-Library.Sublist"
begin

section \<open>The Packagist datasource (lib/datasource/packagist/index.ts)\<close>

text \<open>
  A shallow embedding of the Packagist datasource. JavaScript objects whose entries the
  code iterates (\<open>Object.keys\<close>, \<open>Object.entries\<close>) are association lists in the
  object's own enumeration order, with distinct keys as an object has them; objects that
  are only indexed or assigned by key are maps. An optional property is an \<open>option\<close>,
  \<open>None\<close> standing for \<open>undefined\<close>. Where the code distinguishes \<open>null\<close> from
  \<open>undefined\<close> the model keeps both.
\<close>

subsection \<open>JavaScript values\<close>

text \<open>Truthiness of an optional string: \<open>undefined\<close> and the empty string are falsy.\<close>

definition truthy :: "string option \<Rightarrow> bool" where
  "truthy v = (case v of None \<Rightarrow> False | Some s \<Rightarrow> s \<noteq> [])"

text \<open>
  \<open>String.prototype.replace\<close> with a string pattern: the first occurrence is replaced
  (an empty pattern matches at index 0). The replacement strings the datasource passes are
  hashes, package names and the literal \<open>%hash%\<close>; the special \<open>$\<close> replacement patterns
  are not modelled.
\<close>

fun replace_first :: "string \<Rightarrow> string \<Rightarrow> string \<Rightarrow> string" where
  "replace_first pat rep [] = (if pat = [] then rep else [])"
| "replace_first pat rep (c # cs) =
     (if prefix pat (c # cs) then rep @ drop (length pat) (c # cs)
      else c # replace_first pat rep cs)"

text \<open>\<open>version.replace(/^v/, '')\<close>: one leading \<open>v\<close> is removed when there is one.\<close>

fun strip_v :: "string \<Rightarrow> string" where
  "strip_v [] = []"
| "strip_v (c # cs) = (if c = CHR ''v'' then cs else c # cs)"

text \<open>\<open>regUrl.replace(/\/?$/, '/')\<close>: the result ends with exactly the slash it had, or a new one.\<close>

definition ensure_slash :: "string \<Rightarrow> string" where
  "ensure_slash u = (if u \<noteq> [] \<and> last u = CHR ''/'' then u else u @ ''/'')"

text \<open>
  An error object as the transport raises it, with the four properties the datasource
  reads. A \<open>TypeError\<close> raised by the code itself has none of them.
\<close>

record js_error =
  code :: "string option"
  statusCode :: "nat option"
  url :: "string option"
  host :: "string option"

definition TypeError :: js_error where
  "TypeError = \<lparr>code = None, statusCode = None, url = None, host = None\<rparr>"

datatype datasource_error = DatasourceError js_error

datatype 'a nullable = Undefined | Null | Value 'a

subsection \<open>Data model\<close>

record HostRule =
  username :: "string option"
  password :: "string option"

record HttpOptions =
  auth :: "string option"
  headers :: "(string \<times> string) list option"

record RegistryFile =
  key :: string
  sha256 :: string

text \<open>One entry of a raw version map: \<open>{homepage?, source?: {url?}, time?}\<close>.\<close>

record RawSource =
  src_url :: "string option"

record RawRelease =
  rel_homepage :: "string option"
  source :: "RawSource option"
  time :: "string option"

type_synonym raw_versions = "(string \<times> RawRelease) list"

record Release =
  version :: string
  gitRef :: string
  releaseTimestamp :: "string option"

record ReleaseResult =
  name :: "string option"
  releases :: "Release list option"
  homepage :: "string option"
  sourceUrl :: "string option"

text \<open>
  \<open>PackageMeta\<close>, the root document \<open>packages.json\<close>. The values of \<open>includes\<close>,
  \<open>provider-includes\<close> and \<open>providers\<close> are objects \<open>{sha256}\<close>, kept as the hash.
\<close>

record PackageMeta =
  pm_includes :: "(string \<times> string) list option"
  pm_packages :: "(string \<times> raw_versions) list option"
  pm_provider_includes :: "(string \<times> string) list option"
  pm_providers :: "(string \<times> string) list option"
  pm_providers_url :: "string option"

record RegistryMeta =
  files :: "RegistryFile list option"
  meta_providerPackages :: "string \<rightharpoonup> string"
  meta_providersUrl :: "string option"
  includesFiles :: "RegistryFile list option"
  meta_packages :: "(string \<times> raw_versions) list option"

record PackagistFile =
  providers :: "(string \<times> RegistryFile) list option"
  file_packages :: "(string \<times> raw_versions) list option"

record AllPackages =
  packages :: "(string \<times> raw_versions) list option"
  providersUrl :: "string option"
  providerPackages :: "string \<rightharpoonup> string"
  includesPackages :: "string \<rightharpoonup> ReleaseResult"

text \<open>The body of a per-package document: \<open>body.packages[name]\<close> is a raw version map.\<close>

record PackageBody =
  body_packages :: "(string \<times> raw_versions) list option"

subsection \<open>Release normalizer\<close>

text \<open>
  The callback of \<open>Object.keys(versions).map\<close> in \<open>extractDepReleases\<close>: it updates
  \<open>dep.homepage\<close> and \<open>dep.sourceUrl\<close> as it goes and returns one release per key.
\<close>

fun map_versions :: "raw_versions \<Rightarrow> ReleaseResult \<Rightarrow> Release list \<times> ReleaseResult" where
  "map_versions [] dep = ([], dep)"
| "map_versions ((v, release) # rest) dep =
     (let dep1 = dep\<lparr>homepage :=
                   (if truthy (rel_homepage release) then rel_homepage release
                    else homepage dep)\<rparr>;
          dep2 = (case source release of
                    None \<Rightarrow> dep1
                  | Some src \<Rightarrow>
                      if truthy (src_url src) then dep1\<lparr>sourceUrl := src_url src\<rparr> else dep1);
          r = \<lparr>version = strip_v v, gitRef = v, releaseTimestamp = time release\<rparr>
      in case map_versions rest dep2 of (rs, dep3) \<Rightarrow> (r # rs, dep3))"

definition extractDepReleases :: "raw_versions option \<Rightarrow> ReleaseResult" where
  "extractDepReleases versions =
     (let dep = \<lparr>name = None, releases = None, homepage = None, sourceUrl = None\<rparr>
      in case versions of
           None \<Rightarrow> dep\<lparr>releases := Some []\<rparr>
         | Some vs \<Rightarrow> (case map_versions vs dep of (rs, dep') \<Rightarrow> dep'\<lparr>releases := Some rs\<rparr>))"

subsection \<open>Process state and external collaborators\<close>

text \<open>
  An entry of \<open>global.repoCache\<close> under \<open>packagist-<regUrl>\<close>: the string
  \<open>'pending'\<close>, \<open>null\<close> after a failed resolution, or the assembled packages.
  A key that was never written reads as \<open>undefined\<close>.
\<close>

datatype repo_entry = Pending | Failed | Resolved AllPackages

datatype event =
    HttpGet string HttpOptions
  | CacheGet string string
  | CacheSet string string nat
  | Delay nat
  | Log string string

fun is_http :: "event \<Rightarrow> bool" where
  "is_http (HttpGet u opts) = True"
| "is_http e = False"

fun is_cache_event :: "event \<Rightarrow> bool" where
  "is_cache_event (CacheGet ns k) = True"
| "is_cache_event (CacheSet ns k ttl) = True"
| "is_cache_event e = False"

text \<open>
  The state the datasource reads and writes: \<open>global.repoCache\<close>, the two namespaces of
  the persistent cache it uses (\<open>datasource-packagist-files\<close> holds records
  \<open>{res, sha256}\<close>, \<open>datasource-packagist-org\<close> holds a release result or \<open>null\<close>;
  each with the minutes it was stored for), and the trace of what it did to the outside:
  requests, cache calls, waits and log lines, oldest first.
\<close>

record state =
  repoCache :: "string \<rightharpoonup> repo_entry"
  files_cache :: "string \<rightharpoonup> (PackagistFile \<times> string) \<times> nat"
  org_cache :: "string \<rightharpoonup> ReleaseResult option \<times> nat"
  trace :: "event list"

text \<open>
  The collaborators that are parameters of the datasource: the host rule lookup
  \<open>hostRules.find({hostType, url})\<close>, \<open>URL.resolve\<close>, and the transport
  \<open>http.getJson\<close>, one function for each type of body the code reads. A request
  either returns the body or throws; what the network answers may change over time, so
  the transport sees how many requests were made before. \<open>others\<close> is what the other
  tasks of the process do to the state while this one sleeps in \<open>delay(200)\<close>.
\<close>

record env =
  hostRules_find :: "string \<Rightarrow> HostRule"
  URL_resolve :: "string \<Rightarrow> string \<Rightarrow> string"
  getJson_root :: "nat \<Rightarrow> string \<Rightarrow> HttpOptions \<Rightarrow> js_error + PackageMeta"
  getJson_file :: "nat \<Rightarrow> string \<Rightarrow> HttpOptions \<Rightarrow> js_error + PackagistFile"
  getJson_package :: "nat \<Rightarrow> string \<Rightarrow> HttpOptions \<Rightarrow> js_error + PackageBody"
  others :: "state \<Rightarrow> state"

definition http_count :: "state \<Rightarrow> nat" where
  "http_count s = length (filter is_http (trace s))"

definition emit :: "event \<Rightarrow> state \<Rightarrow> state" where
  "emit e s = s\<lparr>trace := trace s @ [e]\<rparr>"

definition getJson ::
  "(nat \<Rightarrow> string \<Rightarrow> HttpOptions \<Rightarrow> js_error + 'a) \<Rightarrow> string \<Rightarrow> HttpOptions \<Rightarrow> state
     \<Rightarrow> (js_error + 'a) \<times> state" where
  "getJson transport u opts s = (transport (http_count s) u opts, emit (HttpGet u opts) s)"

definition logger :: "string \<Rightarrow> string \<Rightarrow> state \<Rightarrow> state" where
  "logger level msg s = emit (Log level msg) s"

text \<open>
  Modelled from the spec: the persistent cache store \<open>renovateCache\<close>, which is not among
  the sources: \<open>get(namespace, key) -> record | undefined\<close> and
  \<open>set(namespace, key, record, ttlMinutes) -> void\<close>. A record that was set is what a
  later get returns; expiry needs a clock and is left out, so the model keeps a record
  for as long as the real store could.
\<close>

definition files_cache_get :: "string \<Rightarrow> state \<Rightarrow> (PackagistFile \<times> string) option \<times> state" where
  "files_cache_get k s =
     (map_option fst (files_cache s k), emit (CacheGet ''datasource-packagist-files'' k) s)"

definition files_cache_set :: "string \<Rightarrow> PackagistFile \<times> string \<Rightarrow> nat \<Rightarrow> state \<Rightarrow> state" where
  "files_cache_set k v ttl s =
     emit (CacheSet ''datasource-packagist-files'' k ttl)
       (s\<lparr>files_cache := (files_cache s)(k \<mapsto> (v, ttl))\<rparr>)"

definition org_cache_get :: "string \<Rightarrow> state \<Rightarrow> ReleaseResult option option \<times> state" where
  "org_cache_get k s =
     (map_option fst (org_cache s k), emit (CacheGet ''datasource-packagist-org'' k) s)"

definition org_cache_set :: "string \<Rightarrow> ReleaseResult option \<Rightarrow> nat \<Rightarrow> state \<Rightarrow> state" where
  "org_cache_set k v ttl s =
     emit (CacheSet ''datasource-packagist-org'' k ttl)
       (s\<lparr>org_cache := (org_cache s)(k \<mapsto> (v, ttl))\<rparr>)"

subsection \<open>Host options\<close>

definition getHostOpts :: "env \<Rightarrow> string \<Rightarrow> HttpOptions" where
  "getHostOpts e u =
     (let rule = hostRules_find e u
      in case (username rule, password rule) of
           (Some un, Some pw) \<Rightarrow>
             if un \<noteq> [] \<and> pw \<noteq> [] then \<lparr>auth = Some (un @ '':'' @ pw), headers = None\<rparr>
             else \<lparr>auth = None, headers = None\<rparr>
         | _ \<Rightarrow> \<lparr>auth = None, headers = None\<rparr>)"

text \<open>\<open>opts.auth || (opts.headers && opts.headers.authorization)\<close>\<close>

definition authenticated :: "HttpOptions \<Rightarrow> bool" where
  "authenticated opts =
     (truthy (auth opts) \<or>
      (case headers opts of None \<Rightarrow> False | Some hs \<Rightarrow> truthy (map_of hs ''authorization'')))"

subsection \<open>Registry root fetcher\<close>

text \<open>The part of \<open>getRegistryMeta\<close> between the request and \<open>return meta\<close>.\<close>

definition registryMeta_of :: "PackageMeta \<Rightarrow> RegistryMeta" where
  "registryMeta_of res =
     (let meta0 = \<lparr>files = None, meta_providerPackages = Map.empty, meta_providersUrl = None,
                   includesFiles = None, meta_packages = pm_packages res\<rparr>;
          meta1 = (case pm_includes res of
                     None \<Rightarrow> meta0
                   | Some inc \<Rightarrow>
                       meta0\<lparr>includesFiles :=
                         Some (map (\<lambda>(n, h). \<lparr>key = replace_first h ''%hash%'' n, sha256 = h\<rparr>)
                                 inc)\<rparr>);
          meta2 = (if truthy (pm_providers_url res)
                   then meta1\<lparr>meta_providersUrl := pm_providers_url res\<rparr> else meta1);
          meta3 = (case pm_provider_includes res of
                     None \<Rightarrow> meta2
                   | Some pin \<Rightarrow>
                       meta2\<lparr>files := Some (map (\<lambda>(k, h). \<lparr>key = k, sha256 = h\<rparr>) pin)\<rparr>)
      in case pm_providers res of
           None \<Rightarrow> meta3
         | Some ps \<Rightarrow>
             meta3\<lparr>meta_providerPackages :=
               fold (\<lambda>(k, h) m. m(k \<mapsto> h)) ps (meta_providerPackages meta3)\<rparr>)"

text \<open>
  \<open>getRegistryMeta\<close>: the result is a sum so that an exception leaving the function
  would be a value \<open>Inl\<close>; \<open>Inr None\<close> is the \<open>null\<close> of the catch block.
\<close>

definition getRegistryMeta ::
  "env \<Rightarrow> string \<Rightarrow> state \<Rightarrow> (js_error + RegistryMeta option) \<times> state" where
  "getRegistryMeta e regUrl s =
     (let u = URL_resolve e (ensure_slash regUrl) ''packages.json'';
          opts = getHostOpts e u
      in case getJson (getJson_root e) u opts s of
           (Inr res, s1) \<Rightarrow> (Inr (Some (registryMeta_of res)), s1)
         | (Inl err, s1) \<Rightarrow>
             if code err = Some ''ETIMEDOUT''
             then (Inr None, logger ''debug'' ''Packagist timeout'' s1)
             else if statusCode err = Some 401 \<or> statusCode err = Some 403
             then (Inr None, logger ''debug'' ''Unauthorized Packagist repository'' s1)
             else if statusCode err = Some 404 \<and> truthy (url err) \<and>
                     (case url err of None \<Rightarrow> False | Some eu \<Rightarrow> suffix ''/packages.json'' eu)
             then (Inr None, logger ''debug'' ''Packagist repository not found'' s1)
             else (Inr None, logger ''warn'' ''Packagist download error'' s1))"

subsection \<open>Shard file resolver\<close>

definition getPackagistFile ::
  "env \<Rightarrow> string \<Rightarrow> RegistryFile \<Rightarrow> state \<Rightarrow> (js_error + PackagistFile) \<times> state" where
  "getPackagistFile e regUrl file s =
     (let fileName = replace_first ''%hash%'' (sha256 file) (key file);
          opts = getHostOpts e regUrl
      in if authenticated opts
         then getJson (getJson_file e) (regUrl @ ''/'' @ fileName) opts s
         else
           (let cacheKey = regUrl @ key file
            in case files_cache_get cacheKey s of
                 (cachedResult, s1) \<Rightarrow>
                   (case (case cachedResult of
                            None \<Rightarrow> None
                          | Some (res, h) \<Rightarrow> if h = sha256 file then Some res else None) of
                      Some res \<Rightarrow> (Inr res, s1)
                    | None \<Rightarrow>
                        (case getJson (getJson_file e) (regUrl @ ''/'' @ fileName) opts s1 of
                           (Inl err, s2) \<Rightarrow> (Inl err, s2)
                         | (Inr res, s2) \<Rightarrow>
                             (Inr res, files_cache_set cacheKey (res, sha256 file) 1440 s2)))))"

subsection \<open>Registry resolution cache\<close>

text \<open>
  \<open>pAll(queue, {concurrency: 5})\<close> over the provider-include files. The results come
  back in the order of the files and the first rejection rejects the whole; the model
  runs the fetches one after the other, which gives the same results but not the
  interleaving of the requests.
\<close>

fun fetch_all ::
  "env \<Rightarrow> string \<Rightarrow> RegistryFile list \<Rightarrow> state \<Rightarrow> (js_error + PackagistFile list) \<times> state" where
  "fetch_all e regUrl [] s = (Inr [], s)"
| "fetch_all e regUrl (f # fs) s =
     (case getPackagistFile e regUrl f s of
        (Inl err, s1) \<Rightarrow> (Inl err, s1)
      | (Inr r, s1) \<Rightarrow>
          (case fetch_all e regUrl fs s1 of
             (Inl err, s2) \<Rightarrow> (Inl err, s2)
           | (Inr rs, s2) \<Rightarrow> (Inr (r # rs), s2)))"

text \<open>
  The loop over \<open>resolvedFiles\<close>: \<open>Object.entries(res.providers)\<close> throws a
  \<open>TypeError\<close> when the file has no \<open>providers\<close>.
\<close>

fun merge_providers ::
  "PackagistFile list \<Rightarrow> (string \<rightharpoonup> string) \<Rightarrow> js_error + (string \<rightharpoonup> string)" where
  "merge_providers [] pp = Inr pp"
| "merge_providers (res # rest) pp =
     (case providers res of
        None \<Rightarrow> Inl TypeError
      | Some ps \<Rightarrow> merge_providers rest (fold (\<lambda>(n, val) m. m(n \<mapsto> sha256 val)) ps pp))"

text \<open>The loop over \<open>includesFiles\<close>, one file after the other.\<close>

fun fetch_includes ::
  "env \<Rightarrow> string \<Rightarrow> RegistryFile list \<Rightarrow> (string \<rightharpoonup> ReleaseResult) \<Rightarrow> state
     \<Rightarrow> (js_error + (string \<rightharpoonup> ReleaseResult)) \<times> state" where
  "fetch_includes e regUrl [] ip s = (Inr ip, s)"
| "fetch_includes e regUrl (f # fs) ip s =
     (case getPackagistFile e regUrl f s of
        (Inl err, s1) \<Rightarrow> (Inl err, s1)
      | (Inr res, s1) \<Rightarrow>
          fetch_includes e regUrl fs
            (case file_packages res of
               None \<Rightarrow> ip
             | Some pk \<Rightarrow>
                 fold (\<lambda>(k, val) m. m(k \<mapsto> (extractDepReleases (Some val))\<lparr>name := Some k\<rparr>)) pk ip)
            s1)"

text \<open>
  The polling loop \<open>while (repoCacheResult === 'pending')\<close>: it returns what the entry
  holds once that is no longer \<open>'pending'\<close>, and never returns (\<open>None\<close>) if no other
  task ever changes the entry.
\<close>

partial_function (option) wait_pending ::
  "env \<Rightarrow> string \<Rightarrow> state \<Rightarrow> (AllPackages option \<times> state) option" where
  "wait_pending e regUrl s =
     (case repoCache s (''packagist-'' @ regUrl) of
        None \<Rightarrow> Some (None, s)
      | Some Failed \<Rightarrow> Some (None, s)
      | Some (Resolved ap) \<Rightarrow> Some (Some ap, s)
      | Some Pending \<Rightarrow> wait_pending e regUrl (others e (emit (Delay 200) s)))"

text \<open>\<open>if (repoCacheResult)\<close>: \<open>undefined\<close> and \<open>null\<close> are falsy.\<close>

fun entry_truthy :: "repo_entry option \<Rightarrow> bool" where
  "entry_truthy None = False"
| "entry_truthy (Some Failed) = False"
| "entry_truthy (Some Pending) = True"
| "entry_truthy (Some (Resolved ap)) = True"

text \<open>The part of \<open>getAllPackages\<close> after the registry meta was obtained.\<close>

definition assemble ::
  "env \<Rightarrow> string \<Rightarrow> RegistryMeta \<Rightarrow> state \<Rightarrow> (js_error + AllPackages option) \<times> state" where
  "assemble e regUrl registryMeta s =
     (case (case files registryMeta of
              None \<Rightarrow> (Inr (meta_providerPackages registryMeta), s)
            | Some fs \<Rightarrow>
                (case fetch_all e regUrl fs s of
                   (Inl err, s1) \<Rightarrow> (Inl err, s1)
                 | (Inr resolvedFiles, s1) \<Rightarrow>
                     (merge_providers resolvedFiles (meta_providerPackages registryMeta), s1))) of
        (Inl err, s1) \<Rightarrow> (Inl err, s1)
      | (Inr pp, s1) \<Rightarrow>
          (case (case includesFiles registryMeta of
                   None \<Rightarrow> (Inr Map.empty, s1)
                 | Some ifs \<Rightarrow> fetch_includes e regUrl ifs Map.empty s1) of
             (Inl err, s2) \<Rightarrow> (Inl err, s2)
           | (Inr ip, s2) \<Rightarrow>
               (let allPackages =
                      \<lparr>packages = meta_packages registryMeta,
                       providersUrl = meta_providersUrl registryMeta,
                       providerPackages = pp,
                       includesPackages = ip\<rparr>
                in (Inr (Some allPackages),
                    s2\<lparr>repoCache :=
                         (repoCache s2)(''packagist-'' @ regUrl \<mapsto> Resolved allPackages)\<rparr>))))"

definition getAllPackages ::
  "env \<Rightarrow> string \<Rightarrow> state \<Rightarrow> ((js_error + AllPackages option) \<times> state) option" where
  "getAllPackages e regUrl s =
     (if entry_truthy (repoCache s (''packagist-'' @ regUrl))
      then map_option (\<lambda>(r, s1). (Inr r, s1)) (wait_pending e regUrl s)
      else
        (let s0 = s\<lparr>repoCache := (repoCache s)(''packagist-'' @ regUrl \<mapsto> Pending)\<rparr>
         in case getRegistryMeta e regUrl s0 of
              (Inl err, s1) \<Rightarrow> Some (Inl err, s1)
            | (Inr None, s1) \<Rightarrow>
                Some (Inr None,
                      s1\<lparr>repoCache := (repoCache s1)(''packagist-'' @ regUrl \<mapsto> Failed)\<rparr>)
            | (Inr (Some registryMeta), s1) \<Rightarrow> Some (assemble e regUrl registryMeta s1)))"

subsection \<open>Package lookup\<close>

definition packagistOrgLookup ::
  "env \<Rightarrow> string \<Rightarrow> state \<Rightarrow> (js_error + ReleaseResult option) \<times> state" where
  "packagistOrgLookup e n s =
     (case org_cache_get n s of
        (cachedResult, s1) \<Rightarrow>
          (case cachedResult of
             Some (Some dep) \<Rightarrow> (Inr (Some dep), s1)
           | _ \<Rightarrow>
               (let regUrl = ''https://packagist.org'';
                    pkgUrl = URL_resolve e regUrl (''/p/'' @ n @ ''.json'')
                in case getJson (getJson_package e) pkgUrl \<lparr>auth = None, headers = None\<rparr> s1 of
                     (Inl err, s2) \<Rightarrow> (Inl err, s2)
                   | (Inr body, s2) \<Rightarrow>
                       (case body_packages body of
                          None \<Rightarrow> (Inl TypeError, s2)
                        | Some pk \<Rightarrow>
                            (case map_of pk n of
                               None \<Rightarrow> (Inr None, org_cache_set n None 10 s2)
                             | Some res \<Rightarrow>
                                 (let dep = (extractDepReleases (Some res))\<lparr>name := Some n\<rparr>
                                  in (Inr (Some dep),
                                      org_cache_set n (Some dep) 10
                                        (logger ''trace'' ''dep'' s2))))))))"

text \<open>
  The layouts of \<open>packageLookup\<close>, from \<open>if (packages && packages[name])\<close> to the end
  of the try block. \<open>providersUrl.replace\<close> throws a \<open>TypeError\<close> when the registry
  has no \<open>providers-url\<close>, and so does \<open>body.packages[name]\<close> when the body has no
  \<open>packages\<close>.
\<close>

definition lookup_layouts ::
  "env \<Rightarrow> string \<Rightarrow> string \<Rightarrow> AllPackages \<Rightarrow> state \<Rightarrow> (js_error + ReleaseResult option) \<times> state" where
  "lookup_layouts e regUrl n ap s =
     (case (case packages ap of None \<Rightarrow> None | Some pk \<Rightarrow> map_of pk n) of
        Some vs \<Rightarrow> (Inr (Some ((extractDepReleases (Some vs))\<lparr>name := Some n\<rparr>)), s)
      | None \<Rightarrow>
          (case includesPackages ap n of
             Some dep \<Rightarrow> (Inr (Some dep), s)
           | None \<Rightarrow>
               (case providerPackages ap n of
                  None \<Rightarrow> (Inr None, s)
                | Some h \<Rightarrow>
                    if h = [] then (Inr None, s)
                    else
                      (case providersUrl ap of
                         None \<Rightarrow> (Inl TypeError, s)
                       | Some tmpl \<Rightarrow>
                           (let pkgUrl = URL_resolve e regUrl
                                  (replace_first ''%hash%'' h (replace_first ''%package%'' n tmpl));
                                opts = getHostOpts e regUrl
                            in case getJson (getJson_package e) pkgUrl opts s of
                                 (Inl err, s1) \<Rightarrow> (Inl err, s1)
                               | (Inr body, s1) \<Rightarrow>
                                   (case body_packages body of
                                      None \<Rightarrow> (Inl TypeError, s1)
                                    | Some pk \<Rightarrow>
                                        (Inr (Some ((extractDepReleases (map_of pk n))
                                                \<lparr>name := Some n\<rparr>)),
                                         logger ''trace'' ''dep'' s1)))))))"

text \<open>The try block of \<open>packageLookup\<close>: \<open>Inl\<close> is what it throws.\<close>

definition packageLookup_try ::
  "env \<Rightarrow> string \<Rightarrow> string \<Rightarrow> state \<Rightarrow> ((js_error + ReleaseResult option) \<times> state) option" where
  "packageLookup_try e regUrl n s =
     (if regUrl = ''https://packagist.org'' then Some (packagistOrgLookup e n s)
      else
        (case getAllPackages e regUrl s of
           None \<Rightarrow> None
         | Some (Inl err, s1) \<Rightarrow> Some (Inl err, s1)
         | Some (Inr None, s1) \<Rightarrow> Some (Inr None, s1)
         | Some (Inr (Some allPackages), s1) \<Rightarrow> Some (lookup_layouts e regUrl n allPackages s1)))"

text \<open>The catch block of \<open>packageLookup\<close>: \<open>Inl\<close> is the \<open>DatasourceError\<close> it throws.\<close>

definition lookup_catch ::
  "string \<Rightarrow> js_error \<Rightarrow> state \<Rightarrow> (datasource_error + ReleaseResult option) \<times> state" where
  "lookup_catch n err s =
     (if statusCode err = Some 404 \<or> code err = Some ''ENOTFOUND''
      then (Inr None,
            logger ''debug'' [] (logger ''debug'' ''Dependency lookup failure: not found'' s))
      else if host err = Some ''packagist.org'' \<and>
              (code err = Some ''ECONNRESET'' \<or> code err = Some ''ETIMEDOUT'')
      then (Inl (DatasourceError err), s)
      else if host err = Some ''packagist.org'' \<and>
              (case statusCode err of None \<Rightarrow> False | Some c \<Rightarrow> 500 \<le> c \<and> c < 600)
      then (Inl (DatasourceError err), s)
      else (Inr None, logger ''warn'' ''packagist registry failure: Unknown error'' s))"

definition packageLookup ::
  "env \<Rightarrow> string \<Rightarrow> string \<Rightarrow> state
     \<Rightarrow> ((datasource_error + ReleaseResult option) \<times> state) option" where
  "packageLookup e regUrl n s =
     (case packageLookup_try e regUrl n s of
        None \<Rightarrow> None
      | Some (Inr r, s1) \<Rightarrow> Some (Inr r, s1)
      | Some (Inl err, s1) \<Rightarrow> Some (lookup_catch n err s1))"

subsection \<open>getReleases\<close>

text \<open>
  The loop \<open>for (const regUrl of registries)\<close>; \<open>res\<close> is \<open>undefined\<close> before the
  first assignment, and \<open>packageLookup\<close> gives \<open>null\<close> or a release result.
\<close>

fun registries_loop ::
  "env \<Rightarrow> string \<Rightarrow> string list \<Rightarrow> ReleaseResult nullable \<Rightarrow> state
     \<Rightarrow> ((datasource_error + ReleaseResult nullable) \<times> state) option" where
  "registries_loop e lookupName [] res s = Some (Inr res, s)"
| "registries_loop e lookupName (regUrl # rest) res s =
     (case packageLookup e regUrl lookupName s of
        None \<Rightarrow> None
      | Some (Inl err, s1) \<Rightarrow> Some (Inl err, s1)
      | Some (Inr (Some dep), s1) \<Rightarrow> Some (Inr (Value dep), s1)
      | Some (Inr None, s1) \<Rightarrow> registries_loop e lookupName rest Null s1)"

text \<open>\<open>is.nonEmptyArray(registryUrls)\<close>, for a parameter that may be absent.\<close>

fun nonEmptyArray :: "string list option \<Rightarrow> bool" where
  "nonEmptyArray None = False"
| "nonEmptyArray (Some []) = False"
| "nonEmptyArray (Some (u # us)) = True"

definition getReleases ::
  "env \<Rightarrow> string \<Rightarrow> string list option \<Rightarrow> state
     \<Rightarrow> ((datasource_error + ReleaseResult nullable) \<times> state) option" where
  "getReleases e lookupName registryUrls s =
     (let s0 = logger ''trace'' (''getReleases('' @ lookupName @ '')'') s;
          registries = (case registryUrls of
                          None \<Rightarrow> [''https://packagist.org'']
                        | Some us \<Rightarrow>
                            if nonEmptyArray registryUrls then us else [''https://packagist.org''])
      in registries_loop e lookupName registries Undefined s0)"

subsection \<open>Example registries\<close>

text \<open>
  A small world to run the datasource in: a private registry with full credentials, one
  whose host rule has a username only, a registry whose root document is missing at the
  first request and served afterwards, and the default registry with one package, one
  name it does not have and one endpoint that answers 503.
\<close>

definition example_rules :: "string \<Rightarrow> HostRule" where
  "example_rules u =
     (if prefix ''https://private.example'' u
      then \<lparr>username = Some ''bot'', password = Some ''secret''\<rparr>
      else if prefix ''https://half.example'' u
      then \<lparr>username = Some ''bot'', password = None\<rparr>
      else \<lparr>username = None, password = None\<rparr>)"

definition acme_versions :: raw_versions where
  "acme_versions =
     [(''v2.1.0'', \<lparr>rel_homepage = Some ''https://acme.example'',
                    source = Some \<lparr>src_url = Some ''https://git.example/acme/lib''\<rparr>,
                    time = Some ''2020-03-01T10:00:00+00:00''\<rparr>),
      (''1.0.0'', \<lparr>rel_homepage = None, source = None, time = None\<rparr>)]"

definition flat_root :: PackageMeta where
  "flat_root = \<lparr>pm_includes = None, pm_packages = Some [(''acme/lib'', acme_versions)],
                 pm_provider_includes = None, pm_providers = None, pm_providers_url = None\<rparr>"

definition example_root :: "nat \<Rightarrow> string \<Rightarrow> HttpOptions \<Rightarrow> js_error + PackageMeta" where
  "example_root i u opts =
     (if u = ''https://flaky.example/packages.json''
      then (if i = 0
            then Inl \<lparr>code = None, statusCode = Some 404, url = Some u,
                      host = Some ''flaky.example''\<rparr>
            else Inr flat_root)
      else Inl \<lparr>code = Some ''ETIMEDOUT'', statusCode = None, url = Some u, host = None\<rparr>)"

definition shard :: PackagistFile where
  "shard = \<lparr>providers = Some [(''acme/lib'', \<lparr>key = ''p/acme/lib'', sha256 = ''9f3a''\<rparr>)],
             file_packages = None\<rparr>"

definition example_file :: "nat \<Rightarrow> string \<Rightarrow> HttpOptions \<Rightarrow> js_error + PackagistFile" where
  "example_file i u opts = Inr shard"

definition example_package :: "nat \<Rightarrow> string \<Rightarrow> HttpOptions \<Rightarrow> js_error + PackageBody" where
  "example_package i u opts =
     (if u = ''https://packagist.org/p/acme/lib.json''
      then Inr \<lparr>body_packages = Some [(''acme/lib'', acme_versions)]\<rparr>
      else if u = ''https://packagist.org/p/acme/missing.json''
      then Inr \<lparr>body_packages = Some []\<rparr>
      else if u = ''https://packagist.org/p/acme/down.json''
      then Inl \<lparr>code = None, statusCode = Some 503, url = Some u,
                host = Some ''packagist.org''\<rparr>
      else if u = ''https://mirror.example/p/acme/sharded$77aa.json''
      then Inr \<lparr>body_packages = Some [(''acme/sharded'', acme_versions)]\<rparr>
      else if u = ''https://packagist.org/p/acme/slow.json''
      then Inl \<lparr>code = Some ''ETIMEDOUT'', statusCode = None, url = Some u,
                host = Some ''repo.packagist.org''\<rparr>
      else if u = ''https://proxy.example/p/acme/proxied$0b0b.json''
      then Inl \<lparr>code = None, statusCode = Some 503, url = Some u,
                host = Some ''packagist.org''\<rparr>
      else Inl \<lparr>code = None, statusCode = Some 404, url = Some u, host = None\<rparr>)"

text \<open>\<open>URL.resolve\<close> is a parameter; on the URLs of the examples it is concatenation.\<close>

definition example_env :: env where
  "example_env =
     \<lparr>hostRules_find = example_rules,
      URL_resolve = (\<lambda>base rel. base @ rel),
      getJson_root = example_root,
      getJson_file = example_file,
      getJson_package = example_package,
      others = (\<lambda>s. s)\<rparr>"

definition empty_state :: state where
  "empty_state =
     \<lparr>repoCache = Map.empty, files_cache = Map.empty, org_cache = Map.empty, trace = []\<rparr>"

definition shard_file :: RegistryFile where
  "shard_file = \<lparr>key = ''p/provider-latest$%hash%.json'', sha256 = ''c0de''\<rparr>"

text \<open>
  An assembled registry where \<open>acme/lib\<close> is listed under all three layouts,
  \<open>acme/bundled\<close> under includes and providers, and \<open>acme/sharded\<close> under providers
  only.
\<close>

definition bundled_dep :: ReleaseResult where
  "bundled_dep = \<lparr>name = Some ''acme/bundled'', releases = Some [], homepage = None,
                   sourceUrl = None\<rparr>"

definition shared_view :: AllPackages where
  "shared_view =
     \<lparr>packages = Some [(''acme/lib'', acme_versions)],
      providersUrl = Some ''/p/%package%$%hash%.json'',
      providerPackages =
        [''acme/lib'' \<mapsto> ''9f3a'', ''acme/bundled'' \<mapsto> ''51ce'', ''acme/sharded'' \<mapsto> ''77aa''],
      includesPackages =
        [''acme/lib'' \<mapsto> bundled_dep\<lparr>name := Some ''acme/lib''\<rparr>, ''acme/bundled'' \<mapsto> bundled_dep]\<rparr>"

definition resolved_state :: state where
  "resolved_state =
     \<lparr>repoCache = [''packagist-https://mirror.example'' \<mapsto> Resolved shared_view],
      files_cache = Map.empty, org_cache = Map.empty, trace = []\<rparr>"

text \<open>
  The states of the registry whose root document is missing at first: after the first
  call of \<open>getAllPackages\<close>, and after the second.
\<close>

definition flaky_view :: AllPackages where
  "flaky_view =
     \<lparr>packages = Some [(''acme/lib'', acme_versions)], providersUrl = None,
      providerPackages = Map.empty, includesPackages = Map.empty\<rparr>"

definition after_failure :: state where
  "after_failure =
     \<lparr>repoCache = [''packagist-https://flaky.example'' \<mapsto> Failed],
      files_cache = Map.empty, org_cache = Map.empty,
      trace = [HttpGet ''https://flaky.example/packages.json'' \<lparr>auth = None, headers = None\<rparr>,
               Log ''debug'' ''Packagist repository not found'']\<rparr>"

definition after_retry :: state where
  "after_retry =
     \<lparr>repoCache = [''packagist-https://flaky.example'' \<mapsto> Resolved flaky_view],
      files_cache = Map.empty, org_cache = Map.empty,
      trace = [HttpGet ''https://flaky.example/packages.json'' \<lparr>auth = None, headers = None\<rparr>,
               Log ''debug'' ''Packagist repository not found'',
               HttpGet ''https://flaky.example/packages.json'' \<lparr>auth = None, headers = None\<rparr>]\<rparr>"

text \<open>
  A registry other than the default one that lists \<open>acme/proxied\<close> under providers
  only; the request for its per-package document fails with a 503 whose host is
  \<open>packagist.org\<close>. On the default registry, the request for \<open>acme/slow\<close> times out
  with an error whose host is \<open>repo.packagist.org\<close>.
\<close>

definition proxy_view :: AllPackages where
  "proxy_view =
     \<lparr>packages = None,
      providersUrl = Some ''/p/%package%$%hash%.json'',
      providerPackages = [''acme/proxied'' \<mapsto> ''0b0b''],
      includesPackages = Map.empty\<rparr>"

definition proxy_state :: state where
  "proxy_state =
     \<lparr>repoCache = [''packagist-https://proxy.example'' \<mapsto> Resolved proxy_view],
      files_cache = Map.empty, org_cache = Map.empty, trace = []\<rparr>"

subsection \<open>Soft failure of a list of registries\<close>

text \<open>
  The words of the specification of \<open>getReleases\<close>, "every registry soft-fails": the
  lookups of the registries, one after the other in the given order, all return
  \<open>null\<close>. The result is the state after the last of them.
\<close>

fun soft_failures :: "env \<Rightarrow> string \<Rightarrow> string list \<Rightarrow> state \<Rightarrow> state option" where
  "soft_failures e n [] s = Some s"
| "soft_failures e n (u # us) s =
     (case packageLookup e u n s of
        Some (Inr None, s1) \<Rightarrow> soft_failures e n us s1
      | _ \<Rightarrow> None)"

section \<open>Properties\<close>

subsection \<open>Basic facts\<close>

lemma trace_emit [simp]: "trace (emit ev s) = trace s @ [ev]"
  and repoCache_emit [simp]: "repoCache (emit ev s) = repoCache s"
  and files_cache_emit [simp]: "files_cache (emit ev s) = files_cache s"
  and org_cache_emit [simp]: "org_cache (emit ev s) = org_cache s"
  by (simp_all add: emit_def)

lemma http_count_emit [simp]:
  "http_count (emit ev s) = (if is_http ev then Suc (http_count s) else http_count s)"
  by (simp add: http_count_def)

lemma http_count_update [simp]:
  "http_count (s\<lparr>repoCache := rc\<rparr>) = http_count s"
  "http_count (s\<lparr>files_cache := fc\<rparr>) = http_count s"
  "http_count (s\<lparr>org_cache := oc\<rparr>) = http_count s"
  by (simp_all add: http_count_def)

lemma authenticated_getHostOpts:
  "authenticated (getHostOpts e u) \<longleftrightarrow>
     truthy (username (hostRules_find e u)) \<and> truthy (password (hostRules_find e u))"
  by (auto simp: authenticated_def getHostOpts_def truthy_def Let_def split: option.splits)

lemma getHostOpts_anonymous:
  "\<not> (truthy (username (hostRules_find e u)) \<and> truthy (password (hostRules_find e u)))
     \<Longrightarrow> getHostOpts e u = \<lparr>auth = None, headers = None\<rparr>"
  by (auto simp: getHostOpts_def truthy_def Let_def split: option.splits)

lemma wait_pending_resolved:
  "repoCache s (''packagist-'' @ regUrl) = Some (Resolved ap) \<Longrightarrow>
     wait_pending e regUrl s = Some (Some ap, s)"
  by (subst wait_pending.simps) simp

lemma wait_pending_failed:
  "repoCache s (''packagist-'' @ regUrl) = Some Failed \<Longrightarrow>
     wait_pending e regUrl s = Some (None, s)"
  by (subst wait_pending.simps) simp

lemma getAllPackages_resolved:
  "repoCache s (''packagist-'' @ regUrl) = Some (Resolved ap) \<Longrightarrow>
     getAllPackages e regUrl s = Some (Inr (Some ap), s)"
  by (simp add: getAllPackages_def wait_pending_resolved)

lemma registries_loop_found:
  "soft_failures e n pre s = Some s1 \<Longrightarrow>
   packageLookup e u n s1 = Some (Inr (Some dep), s2) \<Longrightarrow>
   registries_loop e n (pre @ u # post) res s = Some (Inr (Value dep), s2)"
proof (induction pre arbitrary: s res)
  case Nil
  then show ?case by simp
next
  case (Cons v pre)
  from Cons.prems(1) obtain s' where
    v: "packageLookup e v n s = Some (Inr None, s')" and rest: "soft_failures e n pre s' = Some s1"
    by (auto split: option.splits sum.splits prod.splits)
  from Cons.IH [OF rest Cons.prems(2)] v show ?case by simp
qed

lemma registries_loop_all_null:
  "soft_failures e n regs s = Some s1 \<Longrightarrow>
   registries_loop e n regs res s = Some (Inr (if regs = [] then res else Null), s1)"
proof (induction regs arbitrary: s res)
  case Nil
  then show ?case by simp
next
  case (Cons v regs)
  from Cons.prems obtain s' where
    v: "packageLookup e v n s = Some (Inr None, s')" and rest: "soft_failures e n regs s' = Some s1"
    by (auto split: option.splits sum.splits prod.splits)
  from Cons.IH [OF rest, of Null] v show ?case by simp
qed

lemmas eval_defs =
  getReleases_def packageLookup_def packageLookup_try_def packagistOrgLookup_def
  getAllPackages_def getRegistryMeta_def assemble_def registryMeta_of_def
  org_cache_get_def org_cache_set_def getJson_def getHostOpts_def logger_def
  lookup_catch_def ensure_slash_def Let_def http_count_def
  example_env_def example_rules_def example_root_def example_package_def

lemma getRegistryMeta_never_throws_aux:
  "\<exists>r. fst (getRegistryMeta e regUrl s) = Inr r"
  by (simp add: getRegistryMeta_def Let_def getJson_def split: sum.splits)

lemma getPackagistFile_trace:
  "prefix (trace s) (trace (snd (getPackagistFile e regUrl f s)))"
  by (auto simp: getPackagistFile_def Let_def getJson_def files_cache_get_def files_cache_set_def
      split: option.splits sum.splits prod.splits)

lemma fetch_all_trace:
  "prefix (trace s) (trace (snd (fetch_all e regUrl fs s)))"
proof (induction fs arbitrary: s)
  case Nil
  show ?case by simp
next
  case (Cons f fs)
  obtain r s1 where g: "getPackagistFile e regUrl f s = (r, s1)" by (cases "getPackagistFile e regUrl f s")
  from getPackagistFile_trace [of s e regUrl f] g have p1: "prefix (trace s) (trace s1)" by simp
  show ?case
  proof (cases r)
    case (Inl err)
    with g p1 show ?thesis by simp
  next
    case (Inr res)
    from Cons.IH [of s1] p1 have "prefix (trace s) (trace (snd (fetch_all e regUrl fs s1)))"
      by (rule prefix_order.trans [rotated])
    with g Inr show ?thesis
      by (auto split: prod.splits sum.splits)
  qed
qed

lemma fetch_includes_trace:
  "prefix (trace s) (trace (snd (fetch_includes e regUrl fs ip s)))"
proof (induction fs arbitrary: s ip)
  case Nil
  show ?case by simp
next
  case (Cons f fs)
  obtain r s1 where g: "getPackagistFile e regUrl f s = (r, s1)" by (cases "getPackagistFile e regUrl f s")
  from getPackagistFile_trace [of s e regUrl f] g have p1: "prefix (trace s) (trace s1)" by simp
  show ?case
  proof (cases r)
    case (Inl err)
    with g p1 show ?thesis by simp
  next
    case (Inr res)
    from Cons.IH [of s1] p1
    have "\<And>ip'. prefix (trace s) (trace (snd (fetch_includes e regUrl fs ip' s1)))"
      by (rule prefix_order.trans [rotated])
    with g Inr show ?thesis by simp
  qed
qed

lemma assemble_trace:
  "prefix (trace s) (trace (snd (assemble e regUrl registryMeta s)))"
proof -
  have a: "prefix (trace s) (trace s1)" if "fetch_all e regUrl fs s = (r, s1)" for fs r s1
    using fetch_all_trace [of s e regUrl fs] that by simp
  have b: "prefix (trace s1) (trace s2)" if "fetch_includes e regUrl fs ip s1 = (r, s2)"
    for fs ip r s1 s2
    using fetch_includes_trace [of s1 e regUrl fs ip] that by simp
  show ?thesis
    by (auto simp: assemble_def Let_def split: option.splits sum.splits prod.splits
        dest!: a b intro: prefix_order.trans)
qed


lemma getAllPackages_fresh:
  "\<not> entry_truthy (repoCache s (''packagist-'' @ regUrl)) \<Longrightarrow>
   getAllPackages e regUrl s =
     (case getRegistryMeta e regUrl
             (s\<lparr>repoCache := (repoCache s)(''packagist-'' @ regUrl \<mapsto> Pending)\<rparr>) of
        (Inl err, s1) \<Rightarrow> Some (Inl err, s1)
      | (Inr None, s1) \<Rightarrow>
          Some (Inr None, s1\<lparr>repoCache := (repoCache s1)(''packagist-'' @ regUrl \<mapsto> Failed)\<rparr>)
      | (Inr (Some registryMeta), s1) \<Rightarrow> Some (assemble e regUrl registryMeta s1))"
  by (simp add: getAllPackages_def Let_def)

lemma getRegistryMeta_cases:
  "getRegistryMeta e regUrl s =
     (case getJson_root e (http_count s) (URL_resolve e (ensure_slash regUrl) ''packages.json'')
             (getHostOpts e (URL_resolve e (ensure_slash regUrl) ''packages.json'')) of
        Inr res \<Rightarrow>
          (Inr (Some (registryMeta_of res)),
           emit (HttpGet (URL_resolve e (ensure_slash regUrl) ''packages.json'')
                   (getHostOpts e (URL_resolve e (ensure_slash regUrl) ''packages.json''))) s)
      | Inl err \<Rightarrow>
          (Inr None, snd (getRegistryMeta e regUrl s)))"
  by (simp add: getRegistryMeta_def Let_def getJson_def split: sum.splits)

lemma getRegistryMeta_trace:
  "prefix (trace s @ [HttpGet (URL_resolve e (ensure_slash regUrl) ''packages.json'')
                        (getHostOpts e (URL_resolve e (ensure_slash regUrl) ''packages.json''))])
     (trace (snd (getRegistryMeta e regUrl s)))"
  by (simp add: getRegistryMeta_def Let_def getJson_def logger_def split: sum.splits)

lemma getRegistryMeta_repoCache:
  "repoCache (snd (getRegistryMeta e regUrl s)) = repoCache s"
  by (simp add: getRegistryMeta_def Let_def getJson_def logger_def split: sum.splits)

lemma registryMeta_of_no_files:
  "pm_provider_includes res = None \<Longrightarrow> pm_includes res = None \<Longrightarrow>
   files (registryMeta_of res) = None \<and> includesFiles (registryMeta_of res) = None"
  by (simp add: registryMeta_of_def Let_def split: option.splits)

subsection \<open>Release normalizer\<close>

lemma map_versions_fst:
  "fst (map_versions vs dep) =
     map (\<lambda>(v, release). \<lparr>version = strip_v v, gitRef = v, releaseTimestamp = time release\<rparr>) vs"
proof (induction vs arbitrary: dep)
  case Nil
  show ?case by simp
next
  case (Cons p vs)
  obtain v release where p: "p = (v, release)" by (cases p)
  show ?case
    unfolding p by (simp add: Let_def case_prod_beta Cons.IH)
qed

lemma strip_v_cases:
  "strip_v k = (if prefix ''v'' k then drop 1 k else k)"
  by (cases k) auto

text \<open>
  C5. For every raw version map, \<open>extractDepReleases\<close> produces exactly one release per
  version key, in the order of the keys: its version is the key with a single leading
  \<open>v\<close> removed when the key starts with one (and the key itself otherwise), its gitRef is
  the key unchanged, and its releaseTimestamp is the entry's time field as it is.
\<close>

theorem extractDepReleases_releases:
  "releases (extractDepReleases (Some vs)) =
     Some (map (\<lambda>(k, release).
             \<lparr>version = (if prefix ''v'' k then drop 1 k else k),
              gitRef = k,
              releaseTimestamp = time release\<rparr>) vs)
   \<and> releases (extractDepReleases None) = Some []"
proof -
  have "releases (extractDepReleases (Some vs)) =
          Some (fst (map_versions vs
            \<lparr>name = None, releases = None, homepage = None, sourceUrl = None\<rparr>))"
    by (simp add: extractDepReleases_def split: prod.splits)
  then show ?thesis
    by (simp add: map_versions_fst strip_v_cases extractDepReleases_def)
qed

theorem extractDepReleases_releases_witness:
  "releases (extractDepReleases (Some acme_versions)) =
     Some [\<lparr>version = ''2.1.0'', gitRef = ''v2.1.0'',
            releaseTimestamp = Some ''2020-03-01T10:00:00+00:00''\<rparr>,
           \<lparr>version = ''1.0.0'', gitRef = ''1.0.0'', releaseTimestamp = None\<rparr>]"
  using extractDepReleases_releases [of acme_versions]
  by (simp add: acme_versions_def)

subsection \<open>Shard file resolver\<close>

text \<open>
  C2. For every registry URL and shard descriptor, when the host options of the URL carry
  an auth option or an authorization header, \<open>getPackagistFile\<close> makes the one request
  for the shard with those options and returns what it gives; it does not touch the
  persistent cache: both namespaces are as they were and the trace gains no cache call,
  neither a get nor a set.
\<close>

theorem getPackagistFile_authenticated:
  assumes "authenticated (getHostOpts e regUrl)"
  shows "getPackagistFile e regUrl f s =
           (getJson_file e (http_count s)
              (regUrl @ ''/'' @ replace_first ''%hash%'' (sha256 f) (key f))
              (getHostOpts e regUrl),
            emit (HttpGet (regUrl @ ''/'' @ replace_first ''%hash%'' (sha256 f) (key f))
                    (getHostOpts e regUrl)) s)
         \<and> files_cache (snd (getPackagistFile e regUrl f s)) = files_cache s
         \<and> org_cache (snd (getPackagistFile e regUrl f s)) = org_cache s
         \<and> filter is_cache_event (trace (snd (getPackagistFile e regUrl f s))) =
             filter is_cache_event (trace s)"
  using assms by (simp add: getPackagistFile_def Let_def getJson_def)

theorem getPackagistFile_authenticated_witness:
  "authenticated (getHostOpts example_env ''https://private.example'')
   \<and> trace (snd (getPackagistFile example_env ''https://private.example'' shard_file empty_state)) =
       [HttpGet ''https://private.example/p/provider-latest$c0de.json''
          \<lparr>auth = Some ''bot:secret'', headers = None\<rparr>]
   \<and> files_cache (snd (getPackagistFile example_env ''https://private.example'' shard_file
         empty_state)) = Map.empty"
proof -
  have h: "authenticated (getHostOpts example_env ''https://private.example'')"
    by (simp add: authenticated_def getHostOpts_def example_env_def example_rules_def truthy_def)
  have o: "getHostOpts example_env ''https://private.example'' =
             \<lparr>auth = Some ''bot:secret'', headers = None\<rparr>"
    by (simp add: getHostOpts_def example_env_def example_rules_def)
  from getPackagistFile_authenticated [OF h, where f = shard_file and s = empty_state] h o
  show ?thesis
    by (simp add: shard_file_def empty_state_def)
qed

text \<open>
  C3. For every shard fetch without credentials: \<open>getPackagistFile\<close> makes no request
  if and only if the persistent cache holds a record under the key \<open>regUrl + key\<close>
  whose sha256 is the requested one, and then it returns the content of that record.
  Otherwise (no record, or another hash) it makes the request; when the request returns,
  the result is written back under the same key with the requested sha256 and an expiry
  of 1440 minutes, and when the request throws, the exception goes to the caller and
  nothing is written.
\<close>

theorem getPackagistFile_anonymous:
  fixes e :: env and regUrl :: string and f :: RegistryFile and s :: state
  assumes anon: "\<not> authenticated (getHostOpts e regUrl)"
  defines "k \<equiv> regUrl @ key f"
  defines "u \<equiv> regUrl @ ''/'' @ replace_first ''%hash%'' (sha256 f) (key f)"
  defines "R \<equiv> getPackagistFile e regUrl f s"
  shows "((\<exists>res ttl. files_cache s k = Some ((res, sha256 f), ttl)) \<longleftrightarrow>
            http_count (snd R) = http_count s)
         \<and> (\<forall>res ttl. files_cache s k = Some ((res, sha256 f), ttl) \<longrightarrow>
               R = (Inr res, emit (CacheGet ''datasource-packagist-files'' k) s))
         \<and> ((\<nexists>res ttl. files_cache s k = Some ((res, sha256 f), ttl)) \<longrightarrow>
               fst R = getJson_file e (http_count s) u (getHostOpts e regUrl)
               \<and> (\<forall>err. fst R = Inl err \<longrightarrow>
                     snd R = emit (HttpGet u (getHostOpts e regUrl))
                               (emit (CacheGet ''datasource-packagist-files'' k) s))
               \<and> (\<forall>res. fst R = Inr res \<longrightarrow>
                     files_cache (snd R) = (files_cache s)(k \<mapsto> ((res, sha256 f), 1440))
                     \<and> trace (snd R) = trace s @
                         [CacheGet ''datasource-packagist-files'' k,
                          HttpGet u (getHostOpts e regUrl),
                          CacheSet ''datasource-packagist-files'' k 1440]))"
  using anon unfolding R_def k_def u_def
  by (auto simp: getPackagistFile_def Let_def getJson_def files_cache_get_def files_cache_set_def
      split: option.splits prod.splits sum.splits if_splits)


theorem getPackagistFile_anonymous_witness:
  "\<not> authenticated (getHostOpts example_env ''https://public.example'')
   \<and> files_cache empty_state (''https://public.example'' @ key shard_file) = None
   \<and> fst (getPackagistFile example_env ''https://public.example'' shard_file empty_state) = Inr shard
   \<and> files_cache (snd (getPackagistFile example_env ''https://public.example'' shard_file
         empty_state)) (''https://public.example'' @ key shard_file) = Some ((shard, ''c0de''), 1440)"
proof -
  have h: "\<not> authenticated (getHostOpts example_env ''https://public.example'')"
    by (simp add: authenticated_def getHostOpts_def example_env_def example_rules_def truthy_def)
  have m: "files_cache empty_state (''https://public.example'' @ key shard_file) = None"
    by (simp add: empty_state_def)
  have t: "getJson_file example_env (http_count empty_state)
             (''https://public.example'' @ ''/'' @
                replace_first ''%hash%'' (sha256 shard_file) (key shard_file))
             (getHostOpts example_env ''https://public.example'') = Inr shard"
    by (simp add: example_env_def example_file_def)
  from getPackagistFile_anonymous [OF h, where f = shard_file and s = empty_state] h m t
  show ?thesis
    by (simp add: shard_file_def)
qed

text \<open>
  C9. For every registry URL whose host rule gives only a username or only a password,
  \<open>getHostOpts\<close> sets no auth option and \<open>getPackagistFile\<close> does exactly what it does
  for a registry with no credentials at all: it reads the persistent cache first, and on a
  miss it writes the fetched shard to the cache for 1440 minutes.
\<close>

theorem getPackagistFile_partial_credentials:
  fixes e :: env and regUrl :: string and f :: RegistryFile and s :: state
  assumes partial: "truthy (username (hostRules_find e regUrl)) \<noteq>
                    truthy (password (hostRules_find e regUrl))"
  defines "k \<equiv> regUrl @ key f"
  defines "R \<equiv> getPackagistFile e regUrl f s"
  shows "getHostOpts e regUrl = \<lparr>auth = None, headers = None\<rparr>
         \<and> \<not> authenticated (getHostOpts e regUrl)
         \<and> R = getPackagistFile
                 (e\<lparr>hostRules_find := (\<lambda>u. \<lparr>username = None, password = None\<rparr>)\<rparr>) regUrl f s
         \<and> (\<exists>rest. trace (snd R) = trace s @ CacheGet ''datasource-packagist-files'' k # rest)
         \<and> (\<forall>res. (\<nexists>res' ttl. files_cache s k = Some ((res', sha256 f), ttl)) \<and>
                  getJson_file e (http_count s)
                    (regUrl @ ''/'' @ replace_first ''%hash%'' (sha256 f) (key f))
                    \<lparr>auth = None, headers = None\<rparr> = Inr res \<longrightarrow>
                  files_cache (snd R) k = Some ((res, sha256 f), 1440)
                  \<and> last (trace (snd R)) = CacheSet ''datasource-packagist-files'' k 1440)"
proof -
  have o: "getHostOpts e regUrl = \<lparr>auth = None, headers = None\<rparr>"
    using partial by (intro getHostOpts_anonymous) auto
  have o': "getHostOpts (e\<lparr>hostRules_find := (\<lambda>u. \<lparr>username = None, password = None\<rparr>)\<rparr>) regUrl =
              \<lparr>auth = None, headers = None\<rparr>"
    by (simp add: getHostOpts_def)
  have na: "\<not> authenticated \<lparr>auth = None, headers = None\<rparr>"
    by (simp add: authenticated_def truthy_def)
  show ?thesis
    unfolding R_def k_def using na
    by (auto simp: getPackagistFile_def Let_def o o' getJson_def files_cache_get_def
        files_cache_set_def split: option.splits prod.splits sum.splits if_splits)
qed

theorem getPackagistFile_partial_credentials_witness:
  "truthy (username (hostRules_find example_env ''https://half.example'')) \<noteq>
     truthy (password (hostRules_find example_env ''https://half.example''))
   \<and> getHostOpts example_env ''https://half.example'' = \<lparr>auth = None, headers = None\<rparr>
   \<and> files_cache (snd (getPackagistFile example_env ''https://half.example'' shard_file
         empty_state)) (''https://half.example'' @ key shard_file) = Some ((shard, ''c0de''), 1440)"
proof -
  have h: "truthy (username (hostRules_find example_env ''https://half.example'')) \<noteq>
             truthy (password (hostRules_find example_env ''https://half.example''))"
    by (simp add: example_env_def example_rules_def truthy_def)
  have m: "files_cache empty_state (''https://half.example'' @ key shard_file) = None"
    by (simp add: empty_state_def)
  have t: "getJson_file example_env (http_count empty_state)
             (''https://half.example'' @ ''/'' @
                replace_first ''%hash%'' (sha256 shard_file) (key shard_file))
             \<lparr>auth = None, headers = None\<rparr> = Inr shard"
    by (simp add: example_env_def example_file_def)
  note T = getPackagistFile_partial_credentials [OF h, where f = shard_file and s = empty_state]
  from T [THEN conjunct1] T [THEN conjunct2, THEN conjunct2, THEN conjunct2, THEN conjunct2] h m t
  show ?thesis
    by (simp add: shard_file_def)
qed

subsection \<open>Registry root fetcher\<close>

text \<open>
  C6. For every registry URL, \<open>getRegistryMeta\<close> returns and never throws; whatever
  error the request for the root document raises (a timeout, 401 or 403, 404 on
  \<open>/packages.json\<close>, or anything else), the result is \<open>null\<close>.
\<close>

theorem getRegistryMeta_never_throws:
  "(\<exists>r. fst (getRegistryMeta e regUrl s) = Inr r)
   \<and> (\<forall>err. getJson_root e (http_count s)
               (URL_resolve e (ensure_slash regUrl) ''packages.json'')
               (getHostOpts e (URL_resolve e (ensure_slash regUrl) ''packages.json'')) = Inl err
            \<longrightarrow> fst (getRegistryMeta e regUrl s) = Inr None)"
proof (cases "getJson_root e (http_count s)
               (URL_resolve e (ensure_slash regUrl) ''packages.json'')
               (getHostOpts e (URL_resolve e (ensure_slash regUrl) ''packages.json''))")
  case (Inl err)
  then have "fst (getRegistryMeta e regUrl s) = Inr None"
    by (subst getRegistryMeta_cases) simp
  with Inl show ?thesis by simp
next
  case (Inr res)
  then have "fst (getRegistryMeta e regUrl s) = Inr (Some (registryMeta_of res))"
    by (subst getRegistryMeta_cases) simp
  with Inr show ?thesis by simp
qed

theorem getRegistryMeta_never_throws_witness:
  "getJson_root example_env (http_count empty_state)
     (URL_resolve example_env (ensure_slash ''https://down.example'') ''packages.json'')
     (getHostOpts example_env
        (URL_resolve example_env (ensure_slash ''https://down.example'') ''packages.json'')) =
     Inl \<lparr>code = Some ''ETIMEDOUT'', statusCode = None,
          url = Some ''https://down.example/packages.json'', host = None\<rparr>
   \<and> fst (getRegistryMeta example_env ''https://down.example'' empty_state) = Inr None"
proof -
  have h: "getJson_root example_env (http_count empty_state)
     (URL_resolve example_env (ensure_slash ''https://down.example'') ''packages.json'')
     (getHostOpts example_env
        (URL_resolve example_env (ensure_slash ''https://down.example'') ''packages.json'')) =
     Inl \<lparr>code = Some ''ETIMEDOUT'', statusCode = None,
          url = Some ''https://down.example/packages.json'', host = None\<rparr>"
    by (simp add: example_env_def example_root_def ensure_slash_def)
  from getRegistryMeta_never_throws [of example_env "''https://down.example''" empty_state] h
  show ?thesis by simp
qed

subsection \<open>Default registry fast path\<close>

text \<open>
  C10. In the fast path for the default registry, a package that the per-package document
  does not list gives \<open>null\<close>, and this \<open>null\<close> is written to the cache for 10
  minutes. A cached \<open>null\<close> is never served: whenever the cache holds \<open>null\<close> for
  the name, the lookup reads the cache and then makes the request again.
\<close>

theorem packagistOrgLookup_null_not_served:
  fixes e :: env and n :: string and s :: state
  defines "pkgUrl \<equiv> URL_resolve e ''https://packagist.org'' (''/p/'' @ n @ ''.json'')"
  defines "R \<equiv> packagistOrgLookup e n s"
  shows "(\<forall>body pk.
            (org_cache s n = None \<or> (\<exists>ttl. org_cache s n = Some (None, ttl))) \<and>
            getJson_package e (http_count s) pkgUrl \<lparr>auth = None, headers = None\<rparr> = Inr body \<and>
            body_packages body = Some pk \<and> map_of pk n = None \<longrightarrow>
            fst R = Inr None \<and> org_cache (snd R) n = Some (None, 10) \<and>
            trace (snd R) = trace s @
              [CacheGet ''datasource-packagist-org'' n,
               HttpGet pkgUrl \<lparr>auth = None, headers = None\<rparr>,
               CacheSet ''datasource-packagist-org'' n 10])
         \<and> (\<forall>ttl. org_cache s n = Some (None, ttl) \<longrightarrow>
               http_count (snd R) = Suc (http_count s) \<and>
               (\<exists>rest. trace (snd R) = trace s @
                  CacheGet ''datasource-packagist-org'' n #
                  HttpGet pkgUrl \<lparr>auth = None, headers = None\<rparr> # rest))"
  unfolding R_def pkgUrl_def
  by (auto simp: packagistOrgLookup_def org_cache_get_def org_cache_set_def getJson_def
      Let_def logger_def split: option.splits sum.splits)

theorem packagistOrgLookup_null_not_served_witness:
  "fst (packagistOrgLookup example_env ''acme/missing'' empty_state) = Inr None
   \<and> org_cache (snd (packagistOrgLookup example_env ''acme/missing'' empty_state))
        ''acme/missing'' = Some (None, 10)
   \<and> http_count (snd (packagistOrgLookup example_env ''acme/missing'' empty_state)) = 1
   \<and> http_count (snd (packagistOrgLookup example_env ''acme/missing''
         (snd (packagistOrgLookup example_env ''acme/missing'' empty_state)))) = 2"
proof -
  let ?s1 = "snd (packagistOrgLookup example_env ''acme/missing'' empty_state)"
  have c: "org_cache empty_state ''acme/missing'' = None"
    by (simp add: empty_state_def)
  have t: "getJson_package example_env (http_count empty_state)
             (URL_resolve example_env ''https://packagist.org'' (''/p/'' @ ''acme/missing'' @ ''.json''))
             \<lparr>auth = None, headers = None\<rparr> = Inr \<lparr>body_packages = Some []\<rparr>"
    by (simp add: example_env_def example_package_def)
  have first: "fst (packagistOrgLookup example_env ''acme/missing'' empty_state) = Inr None
      \<and> org_cache ?s1 ''acme/missing'' = Some (None, 10)
      \<and> trace ?s1 = trace empty_state @
              [CacheGet ''datasource-packagist-org'' ''acme/missing'',
               HttpGet (URL_resolve example_env ''https://packagist.org''
                          (''/p/'' @ ''acme/missing'' @ ''.json''))
                 \<lparr>auth = None, headers = None\<rparr>,
               CacheSet ''datasource-packagist-org'' ''acme/missing'' 10]"
    using packagistOrgLookup_null_not_served
            [where e = example_env and n = "''acme/missing''" and s = empty_state,
             THEN conjunct1, rule_format, of "\<lparr>body_packages = Some []\<rparr>" "[]"] c t
    by simp
  then have n1: "http_count ?s1 = 1"
    by (simp add: http_count_def empty_state_def)
  from first have "org_cache ?s1 ''acme/missing'' = Some (None, 10)" by simp
  from packagistOrgLookup_null_not_served
         [where e = example_env and n = "''acme/missing''" and s = ?s1,
          THEN conjunct2, rule_format, OF this]
  have "http_count (snd (packagistOrgLookup example_env ''acme/missing'' ?s1)) = Suc (http_count ?s1)"
    by simp
  with first n1 show ?thesis by simp
qed

subsection \<open>Error policy of packageLookup\<close>

text \<open>
  C7. For every error caught by \<open>packageLookup\<close>, in this order: status 404 or code
  \<open>ENOTFOUND\<close> gives \<open>null\<close>; otherwise, when the host of the error is
  \<open>packagist.org\<close> (whatever the registry URL that is looked up), code \<open>ECONNRESET\<close>
  or \<open>ETIMEDOUT\<close> or a status from 500 to 599 throws a \<open>DatasourceError\<close> made from
  the error; every other error is logged as a warning and gives \<open>null\<close>. Whenever
  \<open>packageLookup\<close> throws, it is such a \<open>DatasourceError\<close>. The registry URL takes
  no part in the decision: it is the error's host that the catch block tests.
\<close>

theorem packageLookup_error_policy:
  "(\<forall>err s1. packageLookup_try e regUrl n s = Some (Inl err, s1) \<longrightarrow>
      (if statusCode err = Some 404 \<or> code err = Some ''ENOTFOUND''
       then \<exists>s2. packageLookup e regUrl n s = Some (Inr None, s2)
       else if host err = Some ''packagist.org'' \<and>
               (code err = Some ''ECONNRESET'' \<or> code err = Some ''ETIMEDOUT'' \<or>
                (\<exists>c. statusCode err = Some c \<and> 500 \<le> c \<and> c < 600))
       then packageLookup e regUrl n s = Some (Inl (DatasourceError err), s1)
       else packageLookup e regUrl n s =
              Some (Inr None, logger ''warn'' ''packagist registry failure: Unknown error'' s1)))
   \<and> (\<forall>d s'. packageLookup e regUrl n s = Some (Inl d, s') \<longrightarrow>
         (\<exists>err. d = DatasourceError err \<and>
                packageLookup_try e regUrl n s = Some (Inl err, s') \<and>
                host err = Some ''packagist.org'' \<and>
                (code err = Some ''ECONNRESET'' \<or> code err = Some ''ETIMEDOUT'' \<or>
                 (\<exists>c. statusCode err = Some c \<and> 500 \<le> c \<and> c < 600))))"
proof (intro conjI allI impI)
  fix err s1
  assume "packageLookup_try e regUrl n s = Some (Inl err, s1)"
  then show "if statusCode err = Some 404 \<or> code err = Some ''ENOTFOUND''
       then \<exists>s2. packageLookup e regUrl n s = Some (Inr None, s2)
       else if host err = Some ''packagist.org'' \<and>
               (code err = Some ''ECONNRESET'' \<or> code err = Some ''ETIMEDOUT'' \<or>
                (\<exists>c. statusCode err = Some c \<and> 500 \<le> c \<and> c < 600))
       then packageLookup e regUrl n s = Some (Inl (DatasourceError err), s1)
       else packageLookup e regUrl n s =
              Some (Inr None, logger ''warn'' ''packagist registry failure: Unknown error'' s1)"
    by (auto simp: packageLookup_def lookup_catch_def split: option.splits)
next
  fix d s'
  assume "packageLookup e regUrl n s = Some (Inl d, s')"
  then show "\<exists>err. d = DatasourceError err \<and>
                packageLookup_try e regUrl n s = Some (Inl err, s') \<and>
                host err = Some ''packagist.org'' \<and>
                (code err = Some ''ECONNRESET'' \<or> code err = Some ''ETIMEDOUT'' \<or>
                 (\<exists>c. statusCode err = Some c \<and> 500 \<le> c \<and> c < 600))"
    by (auto simp: packageLookup_def lookup_catch_def
        split: option.splits sum.splits prod.splits if_splits)
qed


theorem packageLookup_error_policy_witness:
  "packageLookup_try example_env ''https://packagist.org'' ''acme/down'' empty_state =
     Some (Inl \<lparr>code = None, statusCode = Some 503,
                url = Some ''https://packagist.org/p/acme/down.json'',
                host = Some ''packagist.org''\<rparr>,
           emit (HttpGet ''https://packagist.org/p/acme/down.json'' \<lparr>auth = None, headers = None\<rparr>)
             (emit (CacheGet ''datasource-packagist-org'' ''acme/down'') empty_state))
   \<and> packageLookup example_env ''https://packagist.org'' ''acme/down'' empty_state =
     Some (Inl (DatasourceError
                 \<lparr>code = None, statusCode = Some 503,
                  url = Some ''https://packagist.org/p/acme/down.json'',
                  host = Some ''packagist.org''\<rparr>),
           emit (HttpGet ''https://packagist.org/p/acme/down.json'' \<lparr>auth = None, headers = None\<rparr>)
             (emit (CacheGet ''datasource-packagist-org'' ''acme/down'') empty_state))
   \<and> (\<exists>s2. packageLookup example_env ''https://packagist.org'' ''acme/gone'' empty_state =
          Some (Inr None, s2))"
proof -
  have h: "packageLookup_try example_env ''https://packagist.org'' ''acme/down'' empty_state =
     Some (Inl \<lparr>code = None, statusCode = Some 503,
                url = Some ''https://packagist.org/p/acme/down.json'',
                host = Some ''packagist.org''\<rparr>,
           emit (HttpGet ''https://packagist.org/p/acme/down.json'' \<lparr>auth = None, headers = None\<rparr>)
             (emit (CacheGet ''datasource-packagist-org'' ''acme/down'') empty_state))"
    by (simp add: packageLookup_try_def packagistOrgLookup_def org_cache_get_def getJson_def
        example_env_def example_package_def empty_state_def http_count_def Let_def)
  have g: "packageLookup_try example_env ''https://packagist.org'' ''acme/gone'' empty_state =
     Some (Inl \<lparr>code = None, statusCode = Some 404,
                url = Some ''https://packagist.org/p/acme/gone.json'', host = None\<rparr>,
           emit (HttpGet ''https://packagist.org/p/acme/gone.json'' \<lparr>auth = None, headers = None\<rparr>)
             (emit (CacheGet ''datasource-packagist-org'' ''acme/gone'') empty_state))"
    by (simp add: packageLookup_try_def packagistOrgLookup_def org_cache_get_def getJson_def
        example_env_def example_package_def empty_state_def http_count_def Let_def)
  from packageLookup_error_policy [THEN conjunct1, rule_format, OF h]
       packageLookup_error_policy [THEN conjunct1, rule_format, OF g] h
  show ?thesis by simp
qed

theorem packageLookup_default_registry_counterexample:
  "map_option fst
     (packageLookup_try example_env ''https://packagist.org'' ''acme/slow'' empty_state) =
     Some (Inl \<lparr>code = Some ''ETIMEDOUT'', statusCode = None,
                url = Some ''https://packagist.org/p/acme/slow.json'',
                host = Some ''repo.packagist.org''\<rparr>)
   \<and> map_option fst
       (packageLookup example_env ''https://packagist.org'' ''acme/slow'' empty_state) =
       Some (Inr None)
   \<and> ''https://proxy.example'' \<noteq> ''https://packagist.org''
   \<and> map_option fst
       (packageLookup example_env ''https://proxy.example'' ''acme/proxied'' proxy_state) =
       Some (Inl (DatasourceError
                   \<lparr>code = None, statusCode = Some 503,
                    url = Some ''https://proxy.example/p/acme/proxied$0b0b.json'',
                    host = Some ''packagist.org''\<rparr>))"
proof -
  have a: "map_option fst
     (packageLookup_try example_env ''https://packagist.org'' ''acme/slow'' empty_state) =
     Some (Inl \<lparr>code = Some ''ETIMEDOUT'', statusCode = None,
                url = Some ''https://packagist.org/p/acme/slow.json'',
                host = Some ''repo.packagist.org''\<rparr>)"
    by (simp add: packageLookup_try_def packagistOrgLookup_def org_cache_get_def getJson_def
        example_env_def example_package_def empty_state_def http_count_def Let_def)
  have b: "map_option fst
       (packageLookup example_env ''https://packagist.org'' ''acme/slow'' empty_state) =
       Some (Inr None)"
    by (simp add: packageLookup_def packageLookup_try_def packagistOrgLookup_def
        org_cache_get_def getJson_def lookup_catch_def example_env_def example_package_def
        empty_state_def http_count_def Let_def)
  have view: "getAllPackages example_env ''https://proxy.example'' proxy_state =
                Some (Inr (Some proxy_view), proxy_state)"
    by (rule getAllPackages_resolved) (simp add: proxy_state_def)
  have tr: "packageLookup_try example_env ''https://proxy.example'' ''acme/proxied'' proxy_state =
              Some (lookup_layouts example_env ''https://proxy.example'' ''acme/proxied''
                      proxy_view proxy_state)"
    by (simp add: packageLookup_try_def view)
  have lay: "fst (lookup_layouts example_env ''https://proxy.example'' ''acme/proxied''
                    proxy_view proxy_state) =
             Inl \<lparr>code = None, statusCode = Some 503,
                  url = Some ''https://proxy.example/p/acme/proxied$0b0b.json'',
                  host = Some ''packagist.org''\<rparr>"
    by (simp add: lookup_layouts_def proxy_view_def getJson_def example_env_def
        example_package_def Let_def)
  have c: "map_option fst
       (packageLookup example_env ''https://proxy.example'' ''acme/proxied'' proxy_state) =
       Some (Inl (DatasourceError
                   \<lparr>code = None, statusCode = Some 503,
                    url = Some ''https://proxy.example/p/acme/proxied$0b0b.json'',
                    host = Some ''packagist.org''\<rparr>))"
  proof (cases "lookup_layouts example_env ''https://proxy.example'' ''acme/proxied''
                  proxy_view proxy_state")
    case (Pair r s1)
    with lay have "r = Inl \<lparr>code = None, statusCode = Some 503,
                  url = Some ''https://proxy.example/p/acme/proxied$0b0b.json'',
                  host = Some ''packagist.org''\<rparr>"
      by simp
    with Pair show ?thesis
      by (simp add: packageLookup_def tr lookup_catch_def)
  qed
  from a b c show ?thesis by simp
qed

subsection \<open>Layout priority of packageLookup\<close>

text \<open>
  C4. For every registry other than the default one whose assembled view lists a package
  under more than one layout, \<open>packageLookup\<close> resolves in strict priority order: the
  entry of the flat \<open>packages\<close> is normalized and returned first; otherwise the entry
  of \<open>includesPackages\<close> is returned as it is; otherwise the provider hash decides,
  \<open>null\<close> without one and one request for the per-package document with one. When an
  earlier layout has the package, the lookup ends in the state in which
  \<open>getAllPackages\<close> left it: no per-package request is made.
\<close>

theorem packageLookup_layout_priority:
  assumes nd: "regUrl \<noteq> ''https://packagist.org''"
    and view: "getAllPackages e regUrl s = Some (Inr (Some ap), s1)"
  shows "(\<forall>vs. (case packages ap of None \<Rightarrow> None | Some pk \<Rightarrow> map_of pk n) = Some vs \<longrightarrow>
            packageLookup e regUrl n s =
              Some (Inr (Some ((extractDepReleases (Some vs))\<lparr>name := Some n\<rparr>)), s1))
         \<and> ((case packages ap of None \<Rightarrow> None | Some pk \<Rightarrow> map_of pk n) = None \<longrightarrow>
              (\<forall>dep. includesPackages ap n = Some dep \<longrightarrow>
                 packageLookup e regUrl n s = Some (Inr (Some dep), s1))
              \<and> (includesPackages ap n = None \<longrightarrow>
                   (\<not> truthy (providerPackages ap n) \<longrightarrow>
                      packageLookup e regUrl n s = Some (Inr None, s1))
                   \<and> (\<forall>h tmpl. providerPackages ap n = Some h \<and> h \<noteq> [] \<and>
                          providersUrl ap = Some tmpl \<longrightarrow>
                          (\<exists>r s2 rest.
                             packageLookup e regUrl n s = Some (r, s2) \<and>
                             trace s2 = trace s1 @
                               HttpGet (URL_resolve e regUrl
                                          (replace_first ''%hash%'' h
                                             (replace_first ''%package%'' n tmpl)))
                                 (getHostOpts e regUrl) # rest \<and>
                             (\<forall>body pk.
                                getJson_package e (http_count s1)
                                  (URL_resolve e regUrl
                                     (replace_first ''%hash%'' h
                                        (replace_first ''%package%'' n tmpl)))
                                  (getHostOpts e regUrl) = Inr body \<and>
                                body_packages body = Some pk \<longrightarrow>
                                r = Inr (Some ((extractDepReleases (map_of pk n))
                                          \<lparr>name := Some n\<rparr>)))))))"
proof -
  have tr: "packageLookup_try e regUrl n s = Some (lookup_layouts e regUrl n ap s1)"
    using nd view by (simp add: packageLookup_try_def)
  have flat: "packageLookup e regUrl n s =
                Some (Inr (Some ((extractDepReleases (Some vs))\<lparr>name := Some n\<rparr>)), s1)"
    if "(case packages ap of None \<Rightarrow> None | Some pk \<Rightarrow> map_of pk n) = Some vs" for vs
    using that by (simp add: packageLookup_def tr lookup_layouts_def)
  have inc: "packageLookup e regUrl n s = Some (Inr (Some dep), s1)"
    if "(case packages ap of None \<Rightarrow> None | Some pk \<Rightarrow> map_of pk n) = None"
      and "includesPackages ap n = Some dep" for dep
    using that by (simp add: packageLookup_def tr lookup_layouts_def)
  have nop: "packageLookup e regUrl n s = Some (Inr None, s1)"
    if "(case packages ap of None \<Rightarrow> None | Some pk \<Rightarrow> map_of pk n) = None"
      and "includesPackages ap n = None" and "\<not> truthy (providerPackages ap n)"
    using that by (auto simp: packageLookup_def tr lookup_layouts_def truthy_def
        split: option.splits)
  have prov: "\<exists>r s2 rest.
         packageLookup e regUrl n s = Some (r, s2) \<and>
         trace s2 = trace s1 @
           HttpGet (URL_resolve e regUrl
                      (replace_first ''%hash%'' h (replace_first ''%package%'' n tmpl)))
             (getHostOpts e regUrl) # rest \<and>
         (\<forall>body pk.
            getJson_package e (http_count s1)
              (URL_resolve e regUrl
                 (replace_first ''%hash%'' h (replace_first ''%package%'' n tmpl)))
              (getHostOpts e regUrl) = Inr body \<and>
            body_packages body = Some pk \<longrightarrow>
            r = Inr (Some ((extractDepReleases (map_of pk n))\<lparr>name := Some n\<rparr>)))"
    if "(case packages ap of None \<Rightarrow> None | Some pk \<Rightarrow> map_of pk n) = None"
      and "includesPackages ap n = None" and "providerPackages ap n = Some h" and "h \<noteq> []"
      and "providersUrl ap = Some tmpl" for h tmpl
    using that
    by (auto simp: packageLookup_def tr lookup_layouts_def Let_def getJson_def
        lookup_catch_def logger_def split: option.splits sum.splits)
  from flat inc nop prov show ?thesis by blast
qed


theorem packageLookup_layout_priority_witness:
  "''https://mirror.example'' \<noteq> ''https://packagist.org''
   \<and> getAllPackages example_env ''https://mirror.example'' resolved_state =
       Some (Inr (Some shared_view), resolved_state)
   \<and> providerPackages shared_view ''acme/lib'' = Some ''9f3a''
   \<and> includesPackages shared_view ''acme/lib'' \<noteq> None
   \<and> packageLookup example_env ''https://mirror.example'' ''acme/lib'' resolved_state =
       Some (Inr (Some ((extractDepReleases (Some acme_versions))\<lparr>name := Some ''acme/lib''\<rparr>)),
             resolved_state)
   \<and> providerPackages shared_view ''acme/bundled'' = Some ''51ce''
   \<and> packageLookup example_env ''https://mirror.example'' ''acme/bundled'' resolved_state =
       Some (Inr (Some bundled_dep), resolved_state)
   \<and> (\<exists>s2. packageLookup example_env ''https://mirror.example'' ''acme/sharded'' resolved_state =
         Some (Inr (Some ((extractDepReleases (Some acme_versions))
                      \<lparr>name := Some ''acme/sharded''\<rparr>)), s2))"
proof -
  have nd: "''https://mirror.example'' \<noteq> ''https://packagist.org''" by simp
  have view: "getAllPackages example_env ''https://mirror.example'' resolved_state =
                Some (Inr (Some shared_view), resolved_state)"
    by (rule getAllPackages_resolved) (simp add: resolved_state_def)
  note T = packageLookup_layout_priority [OF nd view]
  have flat: "(case packages shared_view of None \<Rightarrow> None | Some pk \<Rightarrow> map_of pk ''acme/lib'') =
                Some acme_versions"
    by (simp add: shared_view_def)
  have nflat: "(case packages shared_view of None \<Rightarrow> None | Some pk \<Rightarrow> map_of pk ''acme/bundled'') =
                 None"
    by (simp add: shared_view_def)
  have inc: "includesPackages shared_view ''acme/bundled'' = Some bundled_dep"
    by (simp add: shared_view_def)
  have nflat': "(case packages shared_view of None \<Rightarrow> None | Some pk \<Rightarrow> map_of pk ''acme/sharded'') =
                 None"
    by (simp add: shared_view_def)
  have ninc: "includesPackages shared_view ''acme/sharded'' = None"
    by (simp add: shared_view_def)
  have pp: "providerPackages shared_view ''acme/sharded'' = Some ''77aa'' \<and> ''77aa'' \<noteq> [] \<and>
            providersUrl shared_view = Some ''/p/%package%$%hash%.json''"
    by (simp add: shared_view_def)
  have body: "getJson_package example_env (http_count resolved_state)
                (URL_resolve example_env ''https://mirror.example''
                   (replace_first ''%hash%'' ''77aa''
                      (replace_first ''%package%'' ''acme/sharded'' ''/p/%package%$%hash%.json'')))
                (getHostOpts example_env ''https://mirror.example'') =
              Inr \<lparr>body_packages = Some [(''acme/sharded'', acme_versions)]\<rparr>"
    by (simp add: example_env_def example_package_def)
  have c1: "packageLookup example_env ''https://mirror.example'' ''acme/lib'' resolved_state =
       Some (Inr (Some ((extractDepReleases (Some acme_versions))\<lparr>name := Some ''acme/lib''\<rparr>)),
             resolved_state)"
    using T [where n = "''acme/lib''", THEN conjunct1, rule_format, OF flat] .
  have c2: "packageLookup example_env ''https://mirror.example'' ''acme/bundled'' resolved_state =
       Some (Inr (Some bundled_dep), resolved_state)"
    using T [where n = "''acme/bundled''", THEN conjunct2, rule_format, OF nflat,
             THEN conjunct1, rule_format, OF inc] .
  from T [where n = "''acme/sharded''", THEN conjunct2, rule_format, OF nflat',
          THEN conjunct2, rule_format, OF ninc, THEN conjunct2, rule_format, OF pp]
  obtain r s2 where
    r: "packageLookup example_env ''https://mirror.example'' ''acme/sharded'' resolved_state =
          Some (r, s2)"
    and b: "\<forall>body pk.
            getJson_package example_env (http_count resolved_state)
              (URL_resolve example_env ''https://mirror.example''
                 (replace_first ''%hash%'' ''77aa''
                    (replace_first ''%package%'' ''acme/sharded'' ''/p/%package%$%hash%.json'')))
              (getHostOpts example_env ''https://mirror.example'') = Inr body \<and>
            body_packages body = Some pk \<longrightarrow>
            r = Inr (Some ((extractDepReleases (map_of pk ''acme/sharded''))
                      \<lparr>name := Some ''acme/sharded''\<rparr>))"
    by blast
  from b [rule_format, of "\<lparr>body_packages = Some [(''acme/sharded'', acme_versions)]\<rparr>"
            "[(''acme/sharded'', acme_versions)]"] body
  have "r = Inr (Some ((extractDepReleases (Some acme_versions))\<lparr>name := Some ''acme/sharded''\<rparr>))"
    by simp
  with r have c3: "\<exists>s2. packageLookup example_env ''https://mirror.example'' ''acme/sharded''
                        resolved_state =
         Some (Inr (Some ((extractDepReleases (Some acme_versions))
                      \<lparr>name := Some ''acme/sharded''\<rparr>)), s2)"
    by blast
  have misc: "providerPackages shared_view ''acme/lib'' = Some ''9f3a''
      \<and> includesPackages shared_view ''acme/lib'' \<noteq> None
      \<and> providerPackages shared_view ''acme/bundled'' = Some ''51ce''"
    by (simp add: shared_view_def)
  from nd view c1 c2 c3 misc show ?thesis by blast
qed

subsection \<open>getReleases\<close>

text \<open>
  C8. \<open>getReleases\<close> tries the registry URLs in the given order and returns the first
  result of \<open>packageLookup\<close> that is not \<open>null\<close>, in the state that lookup left;
  registries after it are not consulted. With \<open>registryUrls\<close> absent or empty it does
  what it does for the single registry \<open>https://packagist.org\<close>. When every registry
  soft-fails, the result is \<open>null\<close> (the value of the last lookup, not \<open>undefined\<close>),
  and nothing of the earlier soft failures is in the result.
\<close>

theorem getReleases_first_result:
  fixes e :: env and n :: string and s :: state
  defines "s0 \<equiv> logger ''trace'' (''getReleases('' @ n @ '')'') s"
  shows "getReleases e n None s = getReleases e n (Some [''https://packagist.org'']) s
         \<and> getReleases e n (Some []) s = getReleases e n (Some [''https://packagist.org'']) s
         \<and> (\<forall>pre u post s1 s2 dep.
               soft_failures e n pre s0 = Some s1 \<and>
               packageLookup e u n s1 = Some (Inr (Some dep), s2) \<longrightarrow>
               getReleases e n (Some (pre @ u # post)) s = Some (Inr (Value dep), s2))
         \<and> (\<forall>regs s1.
               regs \<noteq> [] \<and> soft_failures e n regs s0 = Some s1 \<longrightarrow>
               getReleases e n (Some regs) s = Some (Inr Null, s1))"
proof (intro conjI allI impI)
  show "getReleases e n None s = getReleases e n (Some [''https://packagist.org'']) s"
    by (simp add: getReleases_def)
  show "getReleases e n (Some []) s = getReleases e n (Some [''https://packagist.org'']) s"
    by (simp add: getReleases_def)
next
  fix pre u post s1 s2 dep
  assume h: "soft_failures e n pre s0 = Some s1 \<and>
             packageLookup e u n s1 = Some (Inr (Some dep), s2)"
  have ne: "nonEmptyArray (Some (pre @ u # post))"
    by (cases pre) simp_all
  from h show "getReleases e n (Some (pre @ u # post)) s = Some (Inr (Value dep), s2)"
    unfolding s0_def
    by (simp add: getReleases_def Let_def ne registries_loop_found)
next
  fix regs s1
  assume h: "regs \<noteq> [] \<and> soft_failures e n regs s0 = Some s1"
  then have ne: "nonEmptyArray (Some regs)"
    by (cases regs) simp_all
  from h show "getReleases e n (Some regs) s = Some (Inr Null, s1)"
    unfolding s0_def
    by (simp add: getReleases_def Let_def ne registries_loop_all_null)
qed

theorem getReleases_undefined_counterexample:
  "soft_failures example_env ''acme/missing'' [''https://packagist.org'']
     (logger ''trace'' ''getReleases(acme/missing)'' empty_state) \<noteq> None
   \<and> map_option fst
        (getReleases example_env ''acme/missing'' (Some [''https://packagist.org'']) empty_state) =
       Some (Inr Null)
   \<and> map_option fst
        (getReleases example_env ''acme/missing'' (Some [''https://packagist.org'']) empty_state) \<noteq>
       Some (Inr Undefined)"
  by (simp add: eval_defs empty_state_def)


theorem getReleases_first_result_witness:
  "soft_failures example_env ''acme/lib'' [''https://down.example'']
     (logger ''trace'' (''getReleases('' @ ''acme/lib'' @ '')'') empty_state) =
     Some \<lparr>repoCache = [''packagist-https://down.example'' \<mapsto> Failed],
           files_cache = Map.empty, org_cache = Map.empty,
           trace = [Log ''trace'' ''getReleases(acme/lib)'',
                    HttpGet ''https://down.example/packages.json''
                      \<lparr>auth = None, headers = None\<rparr>,
                    Log ''debug'' ''Packagist timeout'']\<rparr>
   \<and> map_option fst
        (getReleases example_env ''acme/lib''
           (Some [''https://down.example'', ''https://packagist.org'']) empty_state) =
       Some (Inr (Value ((extractDepReleases (Some acme_versions))\<lparr>name := Some ''acme/lib''\<rparr>)))
   \<and> map_option fst
        (getReleases example_env ''acme/lib'' (Some [''https://down.example'']) empty_state) =
       Some (Inr Null)"
proof -
  let ?s1 = "\<lparr>repoCache = [''packagist-https://down.example'' \<mapsto> Failed],
           files_cache = Map.empty, org_cache = Map.empty,
           trace = [Log ''trace'' ''getReleases(acme/lib)'',
                    HttpGet ''https://down.example/packages.json''
                      \<lparr>auth = None, headers = None\<rparr>,
                    Log ''debug'' ''Packagist timeout'']\<rparr>"
  let ?dep = "(extractDepReleases (Some acme_versions))\<lparr>name := Some ''acme/lib''\<rparr>"
  have sf: "soft_failures example_env ''acme/lib'' [''https://down.example'']
              (logger ''trace'' (''getReleases('' @ ''acme/lib'' @ '')'') empty_state) = Some ?s1"
    by (simp add: eval_defs empty_state_def emit_def)
  have "\<exists>s2. packageLookup example_env ''https://packagist.org'' ''acme/lib'' ?s1 =
          Some (Inr (Some ?dep), s2)"
    by (simp add: eval_defs emit_def)
  then obtain s2 where
    found: "packageLookup example_env ''https://packagist.org'' ''acme/lib'' ?s1 =
              Some (Inr (Some ?dep), s2)" ..
  note T = getReleases_first_result
             [where e = example_env and n = "''acme/lib''" and s = empty_state]
  from T [THEN conjunct2, THEN conjunct2, THEN conjunct1, rule_format,
          of "[''https://down.example'']" ?s1 "''https://packagist.org''" ?dep s2 "[]"] sf found
  have a: "getReleases example_env ''acme/lib''
             (Some [''https://down.example'', ''https://packagist.org'']) empty_state =
           Some (Inr (Value ?dep), s2)"
    by simp
  from T [THEN conjunct2, THEN conjunct2, THEN conjunct2, rule_format,
          of "[''https://down.example'']" ?s1] sf
  have b: "getReleases example_env ''acme/lib'' (Some [''https://down.example'']) empty_state =
           Some (Inr Null, ?s1)"
    by simp
  from sf a b show ?thesis by simp
qed

subsection \<open>Registry resolution cache\<close>

text \<open>
  C1. For every registry URL whose entry is FAILED (stored as \<open>null\<close>): a caller that
  was polling the pending entry returns \<open>null\<close> without a request. The entry is not
  permanent: a later call of \<open>getAllPackages\<close> treats it like an entry that was never
  written, installs the pending marker and requests the root document again; it returns
  \<open>null\<close> and leaves the entry FAILED when that request throws again, and resolves the
  entry when the request returns a root document (shown here for one without shard
  files).
\<close>

theorem getAllPackages_failed_entry:
  fixes e :: env and regUrl :: string and s :: state
  defines "k \<equiv> ''packagist-'' @ regUrl"
  defines "u \<equiv> URL_resolve e (ensure_slash regUrl) ''packages.json''"
  assumes failed: "repoCache s k = Some Failed"
  shows "wait_pending e regUrl s = Some (None, s)
         \<and> getAllPackages e regUrl s =
             getAllPackages e regUrl (s\<lparr>repoCache := (repoCache s)(k := None)\<rparr>)
         \<and> (\<exists>r s'. getAllPackages e regUrl s = Some (r, s') \<and>
                    prefix (trace s @ [HttpGet u (getHostOpts e u)]) (trace s'))
         \<and> (\<forall>err. getJson_root e (http_count s) u (getHostOpts e u) = Inl err \<longrightarrow>
                (\<exists>s'. getAllPackages e regUrl s = Some (Inr None, s') \<and>
                      repoCache s' k = Some Failed))
         \<and> (\<forall>res. getJson_root e (http_count s) u (getHostOpts e u) = Inr res \<and>
                  pm_provider_includes res = None \<and> pm_includes res = None \<longrightarrow>
                (\<exists>ap s'. getAllPackages e regUrl s = Some (Inr (Some ap), s') \<and>
                         repoCache s' k = Some (Resolved ap)))"
proof -
  let ?s0 = "s\<lparr>repoCache := (repoCache s)(k \<mapsto> Pending)\<rparr>"
  have nt: "\<not> entry_truthy (repoCache s (''packagist-'' @ regUrl))"
    using failed by (simp add: k_def)
  have c1: "wait_pending e regUrl s = Some (None, s)"
    using failed unfolding k_def by (rule wait_pending_failed)
  have c2: "getAllPackages e regUrl s =
              getAllPackages e regUrl (s\<lparr>repoCache := (repoCache s)(k := None)\<rparr>)"
    using nt by (simp add: getAllPackages_def k_def)
  have tr0: "trace ?s0 = trace s" and hc0: "http_count ?s0 = http_count s" by simp_all
  obtain m s1 where g: "getRegistryMeta e regUrl ?s0 = (Inr m, s1)"
    using getRegistryMeta_never_throws_aux [of e regUrl ?s0]
    by (cases "getRegistryMeta e regUrl ?s0") auto
  from getRegistryMeta_trace [of ?s0 e regUrl] g
  have p1: "prefix (trace s @ [HttpGet u (getHostOpts e u)]) (trace s1)"
    by (simp add: u_def)
  from getRegistryMeta_repoCache [of e regUrl ?s0] g
  have rc1: "repoCache s1 = (repoCache s)(k \<mapsto> Pending)" by simp
  have c3: "\<exists>r s'. getAllPackages e regUrl s = Some (r, s') \<and>
                    prefix (trace s @ [HttpGet u (getHostOpts e u)]) (trace s')"
  proof (cases m)
    case None
    with g p1 nt show ?thesis by (simp add: getAllPackages_fresh k_def)
  next
    case (Some registryMeta)
    obtain r s2 where a: "assemble e regUrl registryMeta s1 = (r, s2)"
      by (cases "assemble e regUrl registryMeta s1")
    from assemble_trace [of s1 e regUrl registryMeta] a have "prefix (trace s1) (trace s2)"
      by simp
    with p1 have "prefix (trace s @ [HttpGet u (getHostOpts e u)]) (trace s2)"
      by (rule prefix_order.trans)
    with g Some a nt show ?thesis by (simp add: getAllPackages_fresh k_def)
  qed
  have c4: "\<exists>s'. getAllPackages e regUrl s = Some (Inr None, s') \<and> repoCache s' k = Some Failed"
    if "getJson_root e (http_count s) u (getHostOpts e u) = Inl err" for err
  proof -
    from that have "fst (getRegistryMeta e regUrl ?s0) = Inr None"
      by (subst getRegistryMeta_cases) (simp add: u_def)
    with g have "m = None" by simp
    with g nt show ?thesis by (simp add: getAllPackages_fresh k_def)
  qed
  have c5: "\<exists>ap s'. getAllPackages e regUrl s = Some (Inr (Some ap), s') \<and>
                    repoCache s' k = Some (Resolved ap)"
    if "getJson_root e (http_count s) u (getHostOpts e u) = Inr res \<and>
        pm_provider_includes res = None \<and> pm_includes res = None" for res
  proof -
    from that have "fst (getRegistryMeta e regUrl ?s0) = Inr (Some (registryMeta_of res))"
      by (subst getRegistryMeta_cases) (simp add: u_def)
    with g have m: "m = Some (registryMeta_of res)" by simp
    from that registryMeta_of_no_files [of res]
    have nf: "files (registryMeta_of res) = None" "includesFiles (registryMeta_of res) = None"
      by simp_all
    from g m nt nf show ?thesis
      by (simp add: getAllPackages_fresh k_def assemble_def Let_def)
  qed
  from c1 c2 c3 c4 c5 show ?thesis by blast
qed


theorem getAllPackages_failed_entry_witness:
  "repoCache after_failure (''packagist-'' @ ''https://flaky.example'') = Some Failed
   \<and> wait_pending example_env ''https://flaky.example'' after_failure = Some (None, after_failure)
   \<and> (\<exists>ap s'. getAllPackages example_env ''https://flaky.example'' after_failure =
                  Some (Inr (Some ap), s') \<and>
                repoCache s' (''packagist-'' @ ''https://flaky.example'') = Some (Resolved ap))"
proof -
  have h: "repoCache after_failure (''packagist-'' @ ''https://flaky.example'') = Some Failed"
    by (simp add: after_failure_def)
  have t: "getJson_root example_env (http_count after_failure)
             (URL_resolve example_env (ensure_slash ''https://flaky.example'') ''packages.json'')
             (getHostOpts example_env
                (URL_resolve example_env (ensure_slash ''https://flaky.example'') ''packages.json'')) =
           Inr flat_root \<and> pm_provider_includes flat_root = None \<and> pm_includes flat_root = None"
    by (simp add: example_env_def example_root_def ensure_slash_def http_count_def
        after_failure_def flat_root_def)
  note T = getAllPackages_failed_entry [OF h]
  from T [THEN conjunct1]
       T [THEN conjunct2, THEN conjunct2, THEN conjunct2, THEN conjunct2, rule_format, OF t] h
  show ?thesis by blast
qed

theorem getAllPackages_failed_counterexample:
  "getAllPackages example_env ''https://flaky.example'' empty_state = Some (Inr None, after_failure)
   \<and> repoCache after_failure ''packagist-https://flaky.example'' = Some Failed
   \<and> getAllPackages example_env ''https://flaky.example'' after_failure =
       Some (Inr (Some flaky_view), after_retry)
   \<and> http_count after_retry = Suc (http_count after_failure)
   \<and> repoCache after_retry ''packagist-https://flaky.example'' = Some (Resolved flaky_view)"
  by (simp add: eval_defs emit_def suffix_def truthy_def empty_state_def after_failure_def
      after_retry_def flaky_view_def flat_root_def)


end
